theory Spec2Isabelle
  imports Complex_Main "HOL-Library.Sublist"
begin

text \<open>
  A model of the fund analyzer plugin: the technical indicators of a price history
  (\<open>calculate_technical_indicators\<close>), the safe float normalization, the history of a
  fund (\<open>get_lof_history\<close>) and the cached quote snapshots with their retries
  (\<open>_get_lof_data\<close>, \<open>_get_stock_data\<close>), followed by the properties that the
  specification claims of them, each proved or refuted on the model.
\<close>

section \<open>Python values and exceptions\<close>

text \<open>
  The exceptions that the modelled functions can raise. A raise is the \<open>Inl\<close> branch of
  a sum type, a normal return the \<open>Inr\<close> branch. The message of a \<open>TimeoutError\<close> or
  of a plain \<open>Exception\<close> that the source raises is one of a few literals; \<open>message\<close>
  lists them. \<open>ProviderError\<close> stands for an exception of class \<open>Exception\<close> raised
  by a data provider (a network error, a parse error of the remote answer) that is not
  an \<open>asyncio.TimeoutError\<close>.
\<close>

datatype message =
    EastmoneyTimeout    \<comment> \<open>stock/analyzer.py line 98\<close>
  | SinaTimeout         \<comment> \<open>stock/analyzer.py line 120\<close>
  | AllSourcesDown      \<comment> \<open>stock/analyzer.py line 132\<close>
  | LofTimeout          \<comment> \<open>main.py line 144\<close>

datatype py_error =
    ZeroDivisionError
  | OverflowError
  | ValueError
  | TypeError
  | KeyError
  | IndexError
  | ImportError
  | TimeoutError message
  | PlainException message
  | ProviderError string

text \<open>
  A Python float is a finite number, an infinity or not-a-number. A finite float is given
  by its value, a real number; the two zeros are one value. The model does not fix the
  arithmetic of floats, which rounds and overflows: sums, differences, products,
  quotients, powers and \<open>round\<close> are parameters of the model (\<open>float_ops\<close> below),
  and what is proved for every such arithmetic holds for binary floating point.
  Comparison and the test for zero do not round; they are defined here.
\<close>

datatype pyfloat = Finite real | PosInf | NegInf | NaN

fun float_less :: "pyfloat \<Rightarrow> pyfloat \<Rightarrow> bool" where
  \<comment> \<open>\<open>a < b\<close> on floats; every comparison with NaN is false\<close>
  "float_less NaN b = False"
| "float_less a NaN = False"
| "float_less (Finite x) (Finite y) = (x < y)"
| "float_less PosInf b = False"
| "float_less a PosInf = True"
| "float_less a NegInf = False"
| "float_less NegInf b = True"

text \<open>
  A value of another class is given by what \<open>float\<close> does on it: the result of its
  \<open>__float__\<close>, or the exception that this raises (\<open>TypeError\<close> when there is none).
\<close>

datatype pyval =
    PNone
  | PBool bool
  | PInt int
  | PFloat pyfloat
  | PStr string
  | PObj "py_error + pyfloat"

type_synonym pydict = "(string \<times> pyval) list"

definition and_then :: "'e + 'a \<Rightarrow> ('a \<Rightarrow> 'e + 'b) \<Rightarrow> 'e + 'b" where
  "and_then m f = (case m of Inl e \<Rightarrow> Inl e | Inr x \<Rightarrow> f x)"

definition dict_get :: "pydict \<Rightarrow> string \<Rightarrow> pyval" where
  \<comment> \<open>\<open>d.get(k)\<close>: the value stored under the key, \<open>None\<close> for a missing key\<close>
  "dict_get d k = (case map_of d k of None \<Rightarrow> PNone | Some v \<Rightarrow> v)"

definition absent :: "pydict \<Rightarrow> string \<Rightarrow> bool" where
  "absent d k = (dict_get d k = PNone)"

section \<open>Technical indicators (main.py, calculate\_technical\_indicators)\<close>

text \<open>
  The arithmetic of floats, as the indicator engine uses it. Each field is one operation
  of Python on floats; nothing is assumed of them. \<open>x ** 2\<close> raises \<open>OverflowError\<close>
  when the square is beyond the largest float, so \<open>fsquare\<close> may raise.
\<close>

record float_ops =
  fsum :: "pyfloat list \<Rightarrow> pyfloat"                \<comment> \<open>\<open>sum(xs)\<close>\<close>
  fsub :: "pyfloat \<Rightarrow> pyfloat \<Rightarrow> pyfloat"            \<comment> \<open>\<open>a - b\<close>\<close>
  fmul :: "pyfloat \<Rightarrow> pyfloat \<Rightarrow> pyfloat"            \<comment> \<open>\<open>a * b\<close>\<close>
  fdiv :: "pyfloat \<Rightarrow> pyfloat \<Rightarrow> pyfloat"            \<comment> \<open>\<open>a / b\<close> for \<open>b\<close> other than zero\<close>
  fsquare :: "pyfloat \<Rightarrow> py_error + pyfloat"          \<comment> \<open>\<open>a ** 2\<close>\<close>
  froot :: "pyfloat \<Rightarrow> pyfloat"                       \<comment> \<open>\<open>a ** 0.5\<close>\<close>
  fround :: "pyfloat \<Rightarrow> nat \<Rightarrow> pyfloat"              \<comment> \<open>\<open>round(a, n)\<close>\<close>

text \<open>
  One entry of the history list: the eight keys that \<open>get_lof_history\<close> builds, the
  numeric ones being floats. The indicator engine reads only \<open>close\<close>.
\<close>

record bar =
  bar_date :: string
  bar_open :: pyfloat
  bar_close :: pyfloat
  bar_high :: pyfloat
  bar_low :: pyfloat
  bar_volume :: pyfloat
  bar_amount :: pyfloat
  bar_change_rate :: pyfloat

definition py_last_n :: "nat \<Rightarrow> 'a list \<Rightarrow> 'a list" where
  \<comment> \<open>the slice \<open>data[-n:]\<close>; for \<open>n = 0\<close> it is \<open>data[0:]\<close>, the whole list\<close>
  "py_last_n n xs = (if n = 0 then xs else drop (length xs - n) xs)"

definition py_from_end :: "'a list \<Rightarrow> nat \<Rightarrow> py_error + 'a" where
  \<comment> \<open>\<open>data[-k]\<close> for \<open>k > 0\<close>\<close>
  "py_from_end xs k = (if k \<le> length xs then Inr (xs ! (length xs - k)) else Inl IndexError)"

definition float_of_count :: "nat \<Rightarrow> pyfloat" where
  \<comment> \<open>a window or a length as a float, as the division converts it; exact at these sizes\<close>
  "float_of_count n = Finite (real n)"

definition py_div :: "float_ops \<Rightarrow> pyfloat \<Rightarrow> pyfloat \<Rightarrow> py_error + pyfloat" where
  \<comment> \<open>\<open>a / b\<close>: a divisor of zero raises, whatever the dividend\<close>
  "py_div F a b = (if b = Finite 0 then Inl ZeroDivisionError else Inr (fdiv F a b))"

fun py_max :: "pyfloat list \<Rightarrow> py_error + pyfloat" where
  \<comment> \<open>\<open>max(xs)\<close>: the first item that no later item is greater than\<close>
  "py_max [] = Inl ValueError"
| "py_max (x # xs) = Inr (fold (\<lambda>item m. if float_less m item then item else m) xs x)"

fun py_min :: "pyfloat list \<Rightarrow> py_error + pyfloat" where
  "py_min [] = Inl ValueError"
| "py_min (x # xs) = Inr (fold (\<lambda>item m. if float_less item m then item else m) xs x)"

definition truthy :: "pyfloat option \<Rightarrow> bool" where
  \<comment> \<open>the truth value of a float or \<open>None\<close>: \<open>None\<close> and zero are false\<close>
  "truthy v = (case v of None \<Rightarrow> False | Some x \<Rightarrow> x \<noteq> Finite 0)"

definition sma :: "float_ops \<Rightarrow> pyfloat list \<Rightarrow> nat \<Rightarrow> py_error + pyfloat option" where
  "sma F data period =
     (if length data < period then Inr None
      else and_then (py_div F (fsum F (py_last_n period data)) (float_of_count period))
             (\<lambda>m. Inr (Some m)))"

definition calculate_return :: "float_ops \<Rightarrow> pyfloat list \<Rightarrow> nat \<Rightarrow> py_error + pyfloat option" where
  "calculate_return F data days =
     (if length data < days + 1 then Inr None
      else and_then (py_from_end data 1) (\<lambda>cur.
           and_then (py_from_end data (days + 1)) (\<lambda>base.
           and_then (py_div F (fsub F cur base) base) (\<lambda>q.
           Inr (Some (fmul F q (Finite 100)))))))"

fun squared_deviations :: "float_ops \<Rightarrow> pyfloat \<Rightarrow> pyfloat list \<Rightarrow> py_error + pyfloat list" where
  \<comment> \<open>the generator \<open>(x - mean) ** 2 for x in recent\<close>, up to the first raise\<close>
  "squared_deviations F mean [] = Inr []"
| "squared_deviations F mean (x # xs) =
     and_then (fsquare F (fsub F x mean)) (\<lambda>s.
     and_then (squared_deviations F mean xs) (\<lambda>ss. Inr (s # ss)))"

definition calculate_volatility ::
  "float_ops \<Rightarrow> pyfloat list \<Rightarrow> nat \<Rightarrow> py_error + pyfloat option" where
  "calculate_volatility F data period =
     (if length data < period then Inr None
      else let recent = py_last_n period data in
           and_then (py_div F (fsum F recent) (float_of_count (length recent))) (\<lambda>mean.
           and_then (squared_deviations F mean recent) (\<lambda>squares.
           and_then (py_div F (fsum F squares) (float_of_count (length recent))) (\<lambda>variance.
           Inr (Some (froot F variance))))))"

definition round_if :: "float_ops \<Rightarrow> pyfloat option \<Rightarrow> nat \<Rightarrow> pyval" where
  \<comment> \<open>\<open>round(v, n) if v else None\<close>\<close>
  "round_if F v n = (if truthy v then PFloat (fround F (the v) n) else PNone)"

definition trend_sideways :: string where
  "trend_sideways = [CHR 0xE9, CHR 0x9C, CHR 0x87, CHR 0xE8, CHR 0x8D, CHR 0xA1]"

definition trend_strong_up :: string where
  "trend_strong_up = [CHR 0xE5, CHR 0xBC, CHR 0xBA, CHR 0xE5, CHR 0x8A, CHR 0xBF,
                      CHR 0xE4, CHR 0xB8, CHR 0x8A, CHR 0xE6, CHR 0xB6, CHR 0xA8]"

definition trend_up :: string where
  "trend_up = [CHR 0xE4, CHR 0xB8, CHR 0x8A, CHR 0xE6, CHR 0xB6, CHR 0xA8,
               CHR 0xE8, CHR 0xB6, CHR 0x8B, CHR 0xE5, CHR 0x8A, CHR 0xBF]"

definition trend_strong_down :: string where
  "trend_strong_down = [CHR 0xE5, CHR 0xBC, CHR 0xBA, CHR 0xE5, CHR 0x8A, CHR 0xBF,
                        CHR 0xE4, CHR 0xB8, CHR 0x8B, CHR 0xE8, CHR 0xB7, CHR 0x8C]"

definition trend_down :: string where
  "trend_down = [CHR 0xE4, CHR 0xB8, CHR 0x8B, CHR 0xE8, CHR 0xB7, CHR 0x8C,
                 CHR 0xE8, CHR 0xB6, CHR 0x8B, CHR 0xE5, CHR 0x8A, CHR 0xBF]"

definition classify_trend ::
  "pyfloat \<Rightarrow> pyfloat option \<Rightarrow> pyfloat option \<Rightarrow> pyfloat option \<Rightarrow> string" where
  \<comment> \<open>main.py lines 383 to 392; \<open>a > b\<close> is \<open>float_less b a\<close>\<close>
  "classify_trend current_price ma5 ma10 ma20 =
     (if truthy ma5 \<and> truthy ma10 \<and> truthy ma20 then
        (if float_less (the ma5) current_price \<and> float_less (the ma10) (the ma5)
              \<and> float_less (the ma20) (the ma10)
           then trend_strong_up
         else if float_less (the ma5) current_price \<and> float_less (the ma10) (the ma5)
           then trend_up
         else if float_less current_price (the ma5) \<and> float_less (the ma5) (the ma10)
              \<and> float_less (the ma10) (the ma20)
           then trend_strong_down
         else if float_less current_price (the ma5) \<and> float_less (the ma5) (the ma10)
           then trend_down
         else trend_sideways)
      else trend_sideways)"

definition calculate_technical_indicators :: "float_ops \<Rightarrow> bar list \<Rightarrow> py_error + pydict" where
  "calculate_technical_indicators F history_data =
     (if history_data = [] \<or> length history_data < 5 then Inr []
      else
        let closes = map bar_close history_data in
        and_then (sma F closes 5) (\<lambda>ma5.
        and_then (sma F closes 10) (\<lambda>ma10.
        and_then (sma F closes 20) (\<lambda>ma20.
        and_then (if closes \<noteq> [] then py_from_end closes 1 else Inr (Finite 0))
          (\<lambda>current_price.
        let trend = classify_trend current_price ma5 ma10 ma20 in
        and_then (calculate_return F closes 5) (\<lambda>r5.
        and_then (calculate_return F closes 10) (\<lambda>r10.
        and_then (calculate_return F closes 20) (\<lambda>r20.
        and_then (calculate_volatility F closes 20) (\<lambda>vol.
        and_then (if length closes \<ge> 20 then py_max (py_last_n 20 closes) else py_max closes)
          (\<lambda>hi.
        and_then (if length closes \<ge> 20 then py_min (py_last_n 20 closes) else py_min closes)
          (\<lambda>lo.
        Inr [(''ma5'', round_if F ma5 4),
             (''ma10'', round_if F ma10 4),
             (''ma20'', round_if F ma20 4),
             (''return_5d'', round_if F r5 2),
             (''return_10d'', round_if F r10 2),
             (''return_20d'', round_if F r20 2),
             (''volatility'', round_if F vol 4),
             (''high_20d'', PFloat hi),
             (''low_20d'', PFloat lo),
             (''trend'', PStr trend),
             (''current_price'', PFloat current_price)])))))))))))"

section \<open>Safe float normalization (main.py and stock/analyzer.py, \_safe\_float)\<close>

text \<open>
  The builtins are not code of the repository; the model takes as parameters what they
  do where that is not simple to write down: \<open>float\<close> on a string and on an int within
  the range of floats (which rounds to the nearest float), \<open>str\<close>, \<open>str.strip\<close> and
  the formatting of a date.
\<close>

record py_builtins =
  float_of_str :: "string \<Rightarrow> pyfloat option"   \<comment> \<open>\<open>float(s)\<close>; \<open>None\<close> is \<open>ValueError\<close>\<close>
  float_of_int :: "int \<Rightarrow> pyfloat"             \<comment> \<open>\<open>float(n)\<close> for \<open>n\<close> within the range\<close>
  str_of :: "pyval \<Rightarrow> string"                  \<comment> \<open>\<open>str(v)\<close>\<close>
  strip :: "string \<Rightarrow> string"                   \<comment> \<open>\<open>s.strip()\<close>\<close>
  strftime :: "int \<Rightarrow> py_error + string"
    \<comment> \<open>\<open>d.strftime("%Y%m%d")\<close> for the date of that ordinal; some platforms raise
        on an early year\<close>

definition float_int_limit :: int where
  \<comment> \<open>an int of this absolute value or more rounds to \<open>2 ^ 1024\<close>, beyond the largest float\<close>
  "float_int_limit = 2 ^ 1024 - 2 ^ 970"

definition py_float :: "py_builtins \<Rightarrow> pyval \<Rightarrow> py_error + pyfloat" where
  \<comment> \<open>the builtin \<open>float(v)\<close>\<close>
  "py_float B v =
     (case v of
        PNone \<Rightarrow> Inl TypeError
      | PBool b \<Rightarrow> Inr (Finite (if b then 1 else 0))
      | PInt n \<Rightarrow> if float_int_limit \<le> \<bar>n\<bar> then Inl OverflowError
                  else Inr (float_of_int B n)
      | PFloat f \<Rightarrow> Inr f
      | PStr s \<Rightarrow> (case float_of_str B s of None \<Rightarrow> Inl ValueError | Some f \<Rightarrow> Inr f)
      | PObj conv \<Rightarrow> conv)"

definition py_isnan :: "pyfloat \<Rightarrow> bool" where
  "py_isnan f = (f = NaN)"

definition is_nan_float :: "pyval \<Rightarrow> bool" where
  \<comment> \<open>\<open>isinstance(value, float) and math.isnan(value)\<close>\<close>
  "is_nan_float v = (case v of PFloat f \<Rightarrow> py_isnan f | _ \<Rightarrow> False)"

definition safe_float :: "py_builtins \<Rightarrow> pyval \<Rightarrow> pyfloat \<Rightarrow> py_error + pyfloat" where
  \<comment> \<open>the two definitions of \<open>_safe_float\<close> in the source are the same\<close>
  "safe_float B v dflt =
     (if v = PNone then Inr dflt
      else if is_nan_float v then Inr dflt
      else (case py_float B v of
              Inl e \<Rightarrow> if e = ValueError \<or> e = TypeError then Inr dflt else Inl e
            | Inr result \<Rightarrow> if py_isnan result then Inr dflt else Inr result))"

section \<open>Data frames and providers\<close>

text \<open>
  A row of a data frame maps column names to values; a data frame is the list of its
  rows. A provider call, run under \<open>asyncio.wait_for\<close>, has one of three outcomes,
  told apart by the handler that takes them: it returns its result; it ends with an
  exception that \<open>except asyncio.TimeoutError\<close> catches (the timeout of
  \<open>wait_for\<close>, and from Python 3.11 on also a \<open>TimeoutError\<close> that the provider
  raises itself); or it raises another exception of class \<open>Exception\<close>, given by a
  description. The result of a snapshot provider is a data frame (the source logs its
  length); the history provider may also return \<open>None\<close>, which the source tests for.
\<close>

type_synonym row = "(string \<times> pyval) list"

type_synonym dataframe = "row list"

datatype 'a outcome = Returned 'a | TimedOut | Raised string

definition df_empty :: "dataframe \<Rightarrow> bool" where
  \<comment> \<open>\<open>df.empty\<close>: no rows, or no columns\<close>
  "df_empty df = (df = [] \<or> list_all (\<lambda>r. r = []) df)"

definition df_tail :: "int \<Rightarrow> dataframe \<Rightarrow> dataframe" where
  \<comment> \<open>\<open>df.tail(n)\<close>: the last \<open>n\<close> rows; for a negative \<open>n\<close>, all rows but the first \<open>-n\<close>\<close>
  "df_tail n df =
     (if n = 0 then [] else if 0 < n then drop (length df - nat n) df else drop (nat (- n)) df)"

definition cell_or_zero :: "row \<Rightarrow> string \<Rightarrow> pyval" where
  \<comment> \<open>\<open>row[k] if k in row.index else 0\<close>\<close>
  "cell_or_zero r k = (case map_of r k of Some v \<Rightarrow> v | None \<Rightarrow> PInt 0)"

definition col_date :: string where
  "col_date = [CHR 0xE6, CHR 0x97, CHR 0xA5, CHR 0xE6, CHR 0x9C, CHR 0x9F]"

definition col_open :: string where
  "col_open = [CHR 0xE5, CHR 0xBC, CHR 0x80, CHR 0xE7, CHR 0x9B, CHR 0x98]"

definition col_close :: string where
  "col_close = [CHR 0xE6, CHR 0x94, CHR 0xB6, CHR 0xE7, CHR 0x9B, CHR 0x98]"

definition col_high :: string where
  "col_high = [CHR 0xE6, CHR 0x9C, CHR 0x80, CHR 0xE9, CHR 0xAB, CHR 0x98]"

definition col_low :: string where
  "col_low = [CHR 0xE6, CHR 0x9C, CHR 0x80, CHR 0xE4, CHR 0xBD, CHR 0x8E]"

definition col_volume :: string where
  "col_volume = [CHR 0xE6, CHR 0x88, CHR 0x90, CHR 0xE4, CHR 0xBA, CHR 0xA4,
                 CHR 0xE9, CHR 0x87, CHR 0x8F]"

definition col_amount :: string where
  "col_amount = [CHR 0xE6, CHR 0x88, CHR 0x90, CHR 0xE4, CHR 0xBA, CHR 0xA4,
                 CHR 0xE9, CHR 0xA2, CHR 0x9D]"

definition col_change_rate :: string where
  "col_change_rate = [CHR 0xE6, CHR 0xB6, CHR 0xA8, CHR 0xE8, CHR 0xB7, CHR 0x8C,
                      CHR 0xE5, CHR 0xB9, CHR 0x85]"

section \<open>History of a fund (main.py, get\_lof\_history)\<close>

record fund_state =
  f_initialized :: bool
  lof_cache :: "dataframe option"
  lof_cache_time :: "real option"   \<comment> \<open>seconds\<close>

definition DEFAULT_FUND_CODE :: string where
  "DEFAULT_FUND_CODE = ''161226''"

definition fund_ensure_init :: "bool \<Rightarrow> fund_state \<Rightarrow> py_error + fund_state" where
  \<comment> \<open>\<open>FundAnalyzer._ensure_init\<close>; \<open>importable\<close> says whether \<open>import akshare\<close> succeeds\<close>
  "fund_ensure_init importable st =
     (if \<not> f_initialized st then
        (if importable then Inr (st\<lparr>f_initialized := True\<rparr>) else Inl ImportError)
      else Inr st)"

text \<open>
  Dates are proleptic Gregorian ordinals, day 1 being 0001-01-01 and day 3652059 being
  9999-12-31; \<open>today\<close> is the date of \<open>datetime.now()\<close>. A \<open>timedelta\<close> holds at most
  999999999 days, and the date that a subtraction gives must be a date of the calendar:
  both raise \<open>OverflowError\<close> otherwise.
\<close>

definition timedelta_max_days :: int where
  "timedelta_max_days = 999999999"

definition date_max_ordinal :: int where
  "date_max_ordinal = 3652059"

definition request_dates :: "py_builtins \<Rightarrow> int \<Rightarrow> int \<Rightarrow> py_error + string \<times> string" where
  \<comment> \<open>main.py lines 234 to 245: the start and end date of the request, as passed on\<close>
  "request_dates B today days =
     (if timedelta_max_days < \<bar>days * 2\<bar> then Inl OverflowError
      else let end_date = today; start_date = end_date - days * 2 in
           if start_date < 1 \<or> date_max_ordinal < start_date then Inl OverflowError
           else and_then (strftime B start_date) (\<lambda>s.
                and_then (strftime B end_date) (\<lambda>e. Inr (s, e))))"

definition history_record :: "py_builtins \<Rightarrow> row \<Rightarrow> py_error + pydict" where
  \<comment> \<open>the dictionary appended for one row, main.py lines 260 to 283\<close>
  "history_record B r =
     and_then (safe_float B (cell_or_zero r col_open) (Finite 0)) (\<lambda>v_open.
     and_then (safe_float B (cell_or_zero r col_close) (Finite 0)) (\<lambda>v_close.
     and_then (safe_float B (cell_or_zero r col_high) (Finite 0)) (\<lambda>v_high.
     and_then (safe_float B (cell_or_zero r col_low) (Finite 0)) (\<lambda>v_low.
     and_then (safe_float B (cell_or_zero r col_volume) (Finite 0)) (\<lambda>v_volume.
     and_then (safe_float B (cell_or_zero r col_amount) (Finite 0)) (\<lambda>v_amount.
     and_then (safe_float B (cell_or_zero r col_change_rate) (Finite 0)) (\<lambda>v_rate.
     Inr [(''date'', PStr (case map_of r col_date of Some v \<Rightarrow> str_of B v | None \<Rightarrow> [])),
          (''open'', PFloat v_open),
          (''close'', PFloat v_close),
          (''high'', PFloat v_high),
          (''low'', PFloat v_low),
          (''volume'', PFloat v_volume),
          (''amount'', PFloat v_amount),
          (''change_rate'', PFloat v_rate)])))))))"

fun history_records :: "py_builtins \<Rightarrow> row list \<Rightarrow> py_error + pydict list" where
  \<comment> \<open>the loop over \<open>df.iterrows()\<close>\<close>
  "history_records B [] = Inr []"
| "history_records B (r # rs) =
     and_then (history_record B r) (\<lambda>d.
     and_then (history_records B rs) (\<lambda>ds. Inr (d # ds)))"

definition get_lof_history ::
  "py_builtins \<Rightarrow> bool \<Rightarrow> int \<Rightarrow>
   (string \<Rightarrow> string \<Rightarrow> string \<Rightarrow> string \<Rightarrow> string \<Rightarrow> dataframe option outcome) \<Rightarrow>
   fund_state \<Rightarrow> string option \<Rightarrow> int \<Rightarrow> string \<Rightarrow>
   (py_error + pydict list option) \<times> fund_state" where
  \<comment> \<open>\<open>fund_lof_hist_em\<close> is the provider, called with symbol, period, start date,
      end date and adjust; every exception inside the \<open>try\<close> ends in \<open>return None\<close>\<close>
  "get_lof_history B importable today fund_lof_hist_em st fund_code days adjust =
     (case fund_ensure_init importable st of
        Inl e \<Rightarrow> (Inl e, st)
      | Inr st1 \<Rightarrow>
          let fund_code1 = (case fund_code of None \<Rightarrow> DEFAULT_FUND_CODE | Some c \<Rightarrow> c);
              fund_code2 = strip B fund_code1
          in (case request_dates B today days of
                Inl e \<Rightarrow> (Inr None, st1)
              | Inr (start_date, end_date) \<Rightarrow>
                  (case fund_lof_hist_em fund_code2 ''daily'' start_date end_date adjust of
                     TimedOut \<Rightarrow> (Inr None, st1)
                   | Raised e \<Rightarrow> (Inr None, st1)
                   | Returned None \<Rightarrow> (Inr None, st1)
                   | Returned (Some df) \<Rightarrow>
                       if df_empty df then (Inr None, st1)
                       else (case history_records B (df_tail days df) of
                               Inl e \<Rightarrow> (Inr None, st1)
                             | Inr result \<Rightarrow> (Inr (Some result), st1)))))"

section \<open>Quote snapshots: cache, retry and fallback\<close>

text \<open>
  The trace of a snapshot request lists its provider calls and its sleeps, in order. It is
  not state of the program: it makes the number and order of the attempts observable.
\<close>

datatype source = Eastmoney | Sina

datatype event = Fetch source | FetchLof | Sleep nat

definition CACHE_TTL :: real where
  "CACHE_TTL = 300"

definition STOCK_CACHE_TTL :: real where
  "STOCK_CACHE_TTL = 600"

definition MAX_RETRIES :: nat where
  "MAX_RETRIES = 3"

definition RETRY_DELAY :: nat where
  "RETRY_DELAY = 2"

definition cache_fresh :: "dataframe option \<Rightarrow> real option \<Rightarrow> real \<Rightarrow> real \<Rightarrow> bool" where
  \<comment> \<open>the test of main.py lines 118 to 122 and stock/analyzer.py lines 140 to 144\<close>
  "cache_fresh cache cache_time now ttl =
     (cache \<noteq> None \<and> cache_time \<noteq> None \<and> now - the cache_time < ttl)"

subsection \<open>LOF quotes (main.py, \_get\_lof\_data)\<close>

definition get_lof_data ::
  "dataframe outcome \<Rightarrow> real \<Rightarrow> fund_state \<Rightarrow> (py_error + dataframe) \<times> fund_state \<times> event list" where
  \<comment> \<open>\<open>fetch\<close> is what the one call of \<open>fund_lof_spot_em\<close> does; the callers have run
      \<open>_ensure_init\<close> before\<close>
  "get_lof_data fetch now st =
     (if cache_fresh (lof_cache st) (lof_cache_time st) now CACHE_TTL
      then (Inr (the (lof_cache st)), st, [])
      else (case fetch of
              Returned df \<Rightarrow>
                (Inr df, st\<lparr>lof_cache := Some df, lof_cache_time := Some now\<rparr>, [FetchLof])
            | TimedOut \<Rightarrow>
                (case lof_cache st of
                   Some old \<Rightarrow> (Inr old, st, [FetchLof])
                 | None \<Rightarrow> (Inl (TimeoutError LofTimeout), st, [FetchLof]))
            | Raised e \<Rightarrow> (Inl (ProviderError e), st, [FetchLof])))"

subsection \<open>A-share quotes (stock/analyzer.py)\<close>

record stock_state =
  s_initialized :: bool
  stock_cache :: "dataframe option"
  stock_cache_time :: "real option"   \<comment> \<open>seconds\<close>
  current_source :: source

definition stock_ensure_init :: "bool \<Rightarrow> stock_state \<Rightarrow> py_error + stock_state" where
  "stock_ensure_init importable st =
     (if \<not> s_initialized st then
        (if importable then Inr (st\<lparr>s_initialized := True\<rparr>) else Inl ImportError)
      else Inr st)"

definition timeout_message :: "source \<Rightarrow> message" where
  "timeout_message src = (case src of Eastmoney \<Rightarrow> EastmoneyTimeout | Sina \<Rightarrow> SinaTimeout)"

definition after_failure :: "nat \<Rightarrow> event list" where
  \<comment> \<open>\<open>if attempt < MAX_RETRIES - 1: await asyncio.sleep(RETRY_DELAY)\<close>\<close>
  "after_failure attempt = (if attempt < MAX_RETRIES - 1 then [Sleep RETRY_DELAY] else [])"

text \<open>
  The loop \<open>for attempt in range(MAX_RETRIES)\<close> over one provider; the source writes it
  twice, once for each provider. \<open>fetch attempt\<close> is what the call of that attempt does.
  The loop ends with the data frame of the first attempt that returns, or with \<open>None\<close>
  when the range is used up; it carries \<open>last_error\<close> and the trace along.
\<close>

fun retry_loop ::
  "source \<Rightarrow> (nat \<Rightarrow> dataframe outcome) \<Rightarrow> nat list \<Rightarrow> py_error option \<Rightarrow> event list \<Rightarrow>
   dataframe option \<times> py_error option \<times> event list" where
  "retry_loop src fetch [] last_error trace = (None, last_error, trace)"
| "retry_loop src fetch (attempt # rest) last_error trace =
     (case fetch attempt of
        Returned df \<Rightarrow> (Some df, last_error, trace @ [Fetch src])
      | TimedOut \<Rightarrow>
          retry_loop src fetch rest (Some (TimeoutError (timeout_message src)))
            (trace @ [Fetch src] @ after_failure attempt)
      | Raised e \<Rightarrow>
          retry_loop src fetch rest (Some (ProviderError e))
            (trace @ [Fetch src] @ after_failure attempt))"

definition get_stock_data_with_retry ::
  "(nat \<Rightarrow> dataframe outcome) \<Rightarrow> (nat \<Rightarrow> dataframe outcome) \<Rightarrow> stock_state \<Rightarrow>
   (py_error + dataframe) \<times> stock_state \<times> event list" where
  "get_stock_data_with_retry eastmoney sina st =
     (case retry_loop Eastmoney eastmoney [0..<MAX_RETRIES] None [] of
        (Some df, _, trace) \<Rightarrow> (Inr df, st\<lparr>current_source := Eastmoney\<rparr>, trace)
      | (None, last_error, trace) \<Rightarrow>
          (case retry_loop Sina sina [0..<MAX_RETRIES] last_error trace of
             (Some df, _, trace') \<Rightarrow> (Inr df, st\<lparr>current_source := Sina\<rparr>, trace')
           | (None, last_error', trace') \<Rightarrow>
               (Inl (case last_error' of Some e \<Rightarrow> e | None \<Rightarrow> PlainException AllSourcesDown),
                st, trace')))"

definition get_stock_data ::
  "bool \<Rightarrow> (nat \<Rightarrow> dataframe outcome) \<Rightarrow> (nat \<Rightarrow> dataframe outcome) \<Rightarrow> real \<Rightarrow> stock_state \<Rightarrow>
   (py_error + dataframe) \<times> stock_state \<times> event list" where
  "get_stock_data importable eastmoney sina now st =
     (case stock_ensure_init importable st of
        Inl e \<Rightarrow> (Inl e, st, [])
      | Inr st1 \<Rightarrow>
          if cache_fresh (stock_cache st1) (stock_cache_time st1) now STOCK_CACHE_TTL
          then (Inr (the (stock_cache st1)), st1, [])
          else (case get_stock_data_with_retry eastmoney sina st1 of
                  (Inr df, st2, trace) \<Rightarrow>
                    (Inr df, st2\<lparr>stock_cache := Some df, stock_cache_time := Some now\<rparr>, trace)
                | (Inl e, st2, trace) \<Rightarrow>
                    (case stock_cache st2 of
                       Some old \<Rightarrow> (Inr old, st2, trace)
                     | None \<Rightarrow> (Inl e, st2, trace))))"

section \<open>Notions used in the statements\<close>

text \<open>
  The statements below speak of the field that a caller reads from a result, of the
  moving average as the source computes it, of failed attempts and of the schedule of a
  request. These notions are defined here, apart from the model of the source above.
\<close>

definition indicator_field :: "float_ops \<Rightarrow> bar list \<Rightarrow> string \<Rightarrow> py_error + pyval" where
  \<comment> \<open>what a caller reads with \<open>calculate_technical_indicators(h).get(k)\<close>\<close>
  "indicator_field F h k =
     and_then (calculate_technical_indicators F h) (\<lambda>r. Inr (dict_get r k))"

definition moving_average :: "float_ops \<Rightarrow> nat \<Rightarrow> pyfloat list \<Rightarrow> pyfloat" where
  \<comment> \<open>the float sum of the last \<open>w\<close> closes, divided by \<open>w\<close> in floats\<close>
  "moving_average F w cs = fdiv F (fsum F (py_last_n w cs)) (float_of_count w)"

definition ma_key :: "nat \<Rightarrow> string" where
  \<comment> \<open>the key of the moving average over a window of 5, 10 or 20 bars\<close>
  "ma_key w = (if w = 5 then ''ma5'' else if w = 10 then ''ma10'' else ''ma20'')"

definition ma_value :: "float_ops \<Rightarrow> nat \<Rightarrow> pyfloat list \<Rightarrow> pyfloat option" where
  \<comment> \<open>what \<open>sma\<close> returns for a window that is not zero\<close>
  "ma_value F w cs = (if length cs < w then None else Some (moving_average F w cs))"

definition failed :: "'a outcome \<Rightarrow> bool" where
  \<comment> \<open>a fetch attempt that timed out or raised\<close>
  "failed out = (case out of Returned _ \<Rightarrow> False | _ \<Rightarrow> True)"

definition full_schedule :: "event list" where
  \<comment> \<open>three attempts on each provider, two seconds between the attempts on one provider\<close>
  "full_schedule =
     [Fetch Eastmoney, Sleep 2, Fetch Eastmoney, Sleep 2, Fetch Eastmoney,
      Fetch Sina, Sleep 2, Fetch Sina, Sleep 2, Fetch Sina]"

definition is_fetch :: "event \<Rightarrow> bool" where
  "is_fetch ev = (case ev of Sleep _ \<Rightarrow> False | _ \<Rightarrow> True)"

definition six_attempts ::
  "(nat \<Rightarrow> dataframe outcome) \<Rightarrow> (nat \<Rightarrow> dataframe outcome) \<Rightarrow> dataframe outcome list" where
  \<comment> \<open>what the six attempts would do, in the order in which they are made\<close>
  "six_attempts eastmoney sina =
     [eastmoney 0, eastmoney 1, eastmoney 2, sina 0, sina 1, sina 2]"

definition leading_failures :: "dataframe outcome list \<Rightarrow> nat" where
  "leading_failures outs = length (takeWhile failed outs)"

definition error_of :: "source \<Rightarrow> dataframe outcome \<Rightarrow> py_error" where
  \<comment> \<open>what \<open>last_error\<close> is set to after a failed attempt\<close>
  "error_of src out =
     (case out of Raised e \<Rightarrow> ProviderError e | _ \<Rightarrow> TimeoutError (timeout_message src))"

definition result_of :: "dataframe outcome \<Rightarrow> dataframe" where
  \<comment> \<open>the data frame of an attempt that returned\<close>
  "result_of out = (case out of Returned df \<Rightarrow> df | _ \<Rightarrow> [])"

definition history_keys :: "string list" where
  "history_keys =
     [''date'', ''open'', ''close'', ''high'', ''low'', ''volume'', ''amount'', ''change_rate'']"

definition numeric_columns :: "(string \<times> string) list" where
  \<comment> \<open>the numeric keys of a history record with the provider column each is read from\<close>
  "numeric_columns =
     [(''open'', col_open), (''close'', col_close), (''high'', col_high), (''low'', col_low),
      (''volume'', col_volume), (''amount'', col_amount), (''change_rate'', col_change_rate)]"

definition normalized :: "py_builtins \<Rightarrow> row \<Rightarrow> pydict \<Rightarrow> string \<times> string \<Rightarrow> bool" where
  \<comment> \<open>the field \<open>k\<close> of the record is the safe float of the cell of the column, and no NaN\<close>
  "normalized B r d kc =
     (\<exists>f. map_of d (fst kc) = Some (PFloat f) \<and> f \<noteq> NaN \<and>
          safe_float B (cell_or_zero r (snd kc)) (Finite 0) = Inr f)"

definition record_for :: "py_builtins \<Rightarrow> row \<Rightarrow> pydict \<Rightarrow> bool" where
  \<comment> \<open>what claim C10 says of the record built for a row\<close>
  "record_for B r d = (map fst d = history_keys \<and> list_all (normalized B r d) numeric_columns)"

definition cell_converts :: "py_builtins \<Rightarrow> row \<Rightarrow> string \<times> string \<Rightarrow> bool" where
  \<comment> \<open>the safe float of the cell of the column returns\<close>
  "cell_converts B r kc = (\<exists>f. safe_float B (cell_or_zero r (snd kc)) (Finite 0) = Inr f)"

definition convertible :: "py_builtins \<Rightarrow> row list \<Rightarrow> bool" where
  \<comment> \<open>no numeric cell of the rows makes \<open>_safe_float\<close> raise\<close>
  "convertible B rows = list_all (\<lambda>r. list_all (cell_converts B r) numeric_columns) rows"

definition history_call ::
  "py_builtins \<Rightarrow> int \<Rightarrow>
   (string \<Rightarrow> string \<Rightarrow> string \<Rightarrow> string \<Rightarrow> string \<Rightarrow> dataframe option outcome) \<Rightarrow>
   string option \<Rightarrow> int \<Rightarrow> string \<Rightarrow> dataframe option outcome option" where
  \<comment> \<open>the one provider call of \<open>get_lof_history\<close> with the arguments it is given, and
      what it does; \<open>None\<close> when the dates of the request cannot be computed, so that
      the provider is not called\<close>
  "history_call B today fund_lof_hist_em fund_code days adjust =
     (case request_dates B today days of
        Inl e \<Rightarrow> None
      | Inr (start_date, end_date) \<Rightarrow>
          Some (fund_lof_hist_em
                  (strip B (case fund_code of None \<Rightarrow> DEFAULT_FUND_CODE | Some c \<Rightarrow> c))
                  ''daily'' start_date end_date adjust))"

section \<open>Concrete inputs\<close>

text \<open>
  Histories, data frames, providers and states on which the model is run. The concrete
  histories are run with the arithmetic of the reals, \<open>exact_ops\<close>. Binary floating
  point gives the same result wherever the exact result of an operation is itself a
  float; that is so at every step of the runs below, whose closes are small integers
  chosen for it.
\<close>

definition is_finite :: "pyfloat \<Rightarrow> bool" where
  "is_finite a = (case a of Finite x \<Rightarrow> True | _ \<Rightarrow> False)"

definition the_real :: "pyfloat \<Rightarrow> real" where
  "the_real a = (case a of Finite x \<Rightarrow> x | _ \<Rightarrow> 0)"

definition exact2 :: "(real \<Rightarrow> real \<Rightarrow> real) \<Rightarrow> pyfloat \<Rightarrow> pyfloat \<Rightarrow> pyfloat" where
  "exact2 f a b = (if is_finite a \<and> is_finite b then Finite (f (the_real a) (the_real b)) else NaN)"

definition py_round :: "real \<Rightarrow> nat \<Rightarrow> real" where
  \<comment> \<open>\<open>round(x, n)\<close>: to \<open>n\<close> decimals, a tie going to the even neighbour\<close>
  "py_round x n =
     (let y = x * 10 ^ n; f = \<lfloor>y\<rfloor>; d = y - of_int f
      in of_int (if d < 1 / 2 then f else if 1 / 2 < d then f + 1
                 else if even f then f else f + 1) / 10 ^ n)"

definition exact_ops :: float_ops where
  \<comment> \<open>arithmetic without rounding, on finite floats\<close>
  "exact_ops =
     \<lparr>fsum = (\<lambda>xs. if list_all is_finite xs then Finite (sum_list (map the_real xs)) else NaN),
      fsub = exact2 (\<lambda>x y. x - y),
      fmul = exact2 (\<lambda>x y. x * y),
      fdiv = exact2 (\<lambda>x y. x / y),
      fsquare = (\<lambda>a. Inr (exact2 (\<lambda>x y. x * y) a a)),
      froot = (\<lambda>a. if is_finite a then Finite (sqrt (the_real a)) else NaN),
      fround = (\<lambda>a n. if is_finite a then Finite (py_round (the_real a) n) else NaN)\<rparr>"

definition bar_of_close :: "real \<Rightarrow> bar" where
  \<comment> \<open>a bar with the given close, for concrete histories\<close>
  "bar_of_close c = \<lparr>bar_date = [], bar_open = Finite c, bar_close = Finite c,
     bar_high = Finite c, bar_low = Finite c, bar_volume = Finite 0, bar_amount = Finite 0,
     bar_change_rate = Finite 0\<rparr>"

definition short_history :: "bar list" where
  \<comment> \<open>five bars, closes 1 to 5\<close>
  "short_history = map bar_of_close [1, 2, 3, 4, 5]"

definition short_result :: pydict where
  \<comment> \<open>the indicators of \<open>short_history\<close>\<close>
  "short_result =
     [(''ma5'', PFloat (Finite 3)), (''ma10'', PNone), (''ma20'', PNone),
      (''return_5d'', PNone), (''return_10d'', PNone), (''return_20d'', PNone),
      (''volatility'', PNone),
      (''high_20d'', PFloat (Finite 5)), (''low_20d'', PFloat (Finite 1)),
      (''trend'', PStr trend_sideways), (''current_price'', PFloat (Finite 5))]"

definition uptrend_history :: "bar list" where
  \<comment> \<open>twenty bars; the means of the last 5, 10 and 20 closes are 11, 9 and 8, the
      variance of the closes is 25\<close>
  "uptrend_history = map bar_of_close
     [15, 11, 2, 14, 7, 8, 5, 1, 3, 4, 1, 12, 1, 13, 8, 3, 13, 15, 12, 12]"

definition uptrend_result :: pydict where
  \<comment> \<open>the indicators of \<open>uptrend_history\<close>\<close>
  "uptrend_result =
     [(''ma5'', PFloat (Finite 11)), (''ma10'', PFloat (Finite 9)),
      (''ma20'', PFloat (Finite 8)),
      (''return_5d'', PFloat (Finite 50)),
      (''return_10d'', PFloat (Finite 200)),
      (''return_20d'', PNone), (''volatility'', PFloat (Finite 5)),
      (''high_20d'', PFloat (Finite 15)), (''low_20d'', PFloat (Finite 1)),
      (''trend'', PStr trend_strong_up), (''current_price'', PFloat (Finite 12))]"

definition plain_builtins :: py_builtins where
  \<comment> \<open>builtins for concrete runs: no string is a number, strings print as themselves,
      every date is formatted\<close>
  "plain_builtins = \<lparr>float_of_str = (\<lambda>s. None),
     float_of_int = (\<lambda>n. Finite (real_of_int n)),
     str_of = (\<lambda>v. case v of PStr s \<Rightarrow> s | _ \<Rightarrow> []), strip = (\<lambda>s. s),
     strftime = (\<lambda>d. Inr ''yyyymmdd'')\<rparr>"

definition new_fund_state :: fund_state where
  \<comment> \<open>a fund analyzer as \<open>__init__\<close> leaves it\<close>
  "new_fund_state = \<lparr>f_initialized = False, lof_cache = None, lof_cache_time = None\<rparr>"

definition some_day :: int where
  \<comment> \<open>the ordinal of a day of the year 2024\<close>
  "some_day = 739000"

definition two_day_frame :: dataframe where
  "two_day_frame =
     [[(col_date, PStr ''2024-01-02''), (col_close, PFloat (Finite 1))],
      [(col_date, PStr ''2024-01-03''), (col_open, PStr ''-''), (col_close, PFloat NaN),
       (col_high, PInt 2)]]"

definition two_day_provider ::
  "string \<Rightarrow> string \<Rightarrow> string \<Rightarrow> string \<Rightarrow> string \<Rightarrow> dataframe option outcome" where
  "two_day_provider symbol period start_date end_date adjust = Returned (Some two_day_frame)"

definition last_day_records :: "pydict list" where
  "last_day_records =
     [[(''date'', PStr ''2024-01-03''), (''open'', PFloat (Finite 0)),
       (''close'', PFloat (Finite 0)), (''high'', PFloat (Finite 2)),
       (''low'', PFloat (Finite 0)), (''volume'', PFloat (Finite 0)),
       (''amount'', PFloat (Finite 0)), (''change_rate'', PFloat (Finite 0))]]"

definition fresh_state :: fund_state where
  \<comment> \<open>a fund analyzer after initialisation, nothing cached\<close>
  "fresh_state = \<lparr>f_initialized = True, lof_cache = None, lof_cache_time = None\<rparr>"

definition stale_state :: fund_state where
  \<comment> \<open>a fund analyzer whose snapshot of one row was cached at time 0\<close>
  "stale_state = \<lparr>f_initialized = True, lof_cache = Some [[(''code'', PStr ''161226'')]],
                   lof_cache_time = Some 0\<rparr>"

definition one_row_frame :: dataframe where
  "one_row_frame = [[(''code'', PStr ''600519'')]]"

definition cold_stock_state :: stock_state where
  \<comment> \<open>a stock analyzer as \<open>__init__\<close> leaves it\<close>
  "cold_stock_state = \<lparr>s_initialized = False, stock_cache = None, stock_cache_time = None,
     current_source = Eastmoney\<rparr>"

definition eastmoney_down :: "nat \<Rightarrow> dataframe outcome" where
  "eastmoney_down attempt = TimedOut"

definition sina_second_try :: "nat \<Rightarrow> dataframe outcome" where
  "sina_second_try attempt =
     (if attempt = 1 then Returned one_row_frame else Raised ''ConnectionError'')"

section \<open>Properties of the indicator engine\<close>

subsection \<open>The helper functions\<close>

lemma and_then_Inr: "and_then m f = Inr y \<longleftrightarrow> (\<exists>x. m = Inr x \<and> f x = Inr y)"
  by (cases m) (simp_all add: and_then_def)

lemma sma_eq: "0 < p \<Longrightarrow> sma F xs p = Inr (ma_value F p xs)"
  by (simp add: sma_def py_div_def and_then_def ma_value_def moving_average_def
      float_of_count_def)

lemma volatility_short: "length xs < p \<Longrightarrow> calculate_volatility F xs p = Inr None"
  by (simp add: calculate_volatility_def)

lemma return_short: "length xs < d + 1 \<Longrightarrow> calculate_return F xs d = Inr None"
  by (simp add: calculate_return_def)

lemma return_raises_or_returns:
  "calculate_return F xs d = Inl ZeroDivisionError \<or> (\<exists>v. calculate_return F xs d = Inr v)"
  by (simp add: calculate_return_def py_from_end_def py_div_def and_then_def)

lemma fold_max_finite:
  "fold (\<lambda>item m. if float_less m item then item else m) (map Finite xs) (Finite x) =
     Finite (fold max xs x)"
  by (induction xs arbitrary: x) (simp_all add: max_def not_less)

lemma fold_min_finite:
  "fold (\<lambda>item m. if float_less item m then item else m) (map Finite xs) (Finite x) =
     Finite (fold min xs x)"
  by (induction xs arbitrary: x) (simp_all add: min_def not_less)

lemma py_max_finite: "xs \<noteq> [] \<Longrightarrow> py_max (map Finite xs) = Inr (Finite (Max (set xs)))"
  by (cases xs) (simp_all add: fold_max_finite Max.set_eq_fold [symmetric])

lemma py_min_finite: "xs \<noteq> [] \<Longrightarrow> py_min (map Finite xs) = Inr (Finite (Min (set xs)))"
  by (cases xs) (simp_all add: fold_min_finite Min.set_eq_fold [symmetric])

lemma py_max_returns: "xs \<noteq> [] \<Longrightarrow> \<exists>m. py_max xs = Inr m"
  by (cases xs) simp_all

lemma py_min_returns: "xs \<noteq> [] \<Longrightarrow> \<exists>m. py_min xs = Inr m"
  by (cases xs) simp_all

lemma trend_labels_distinct:
  "distinct [trend_sideways, trend_strong_up, trend_up, trend_strong_down, trend_down]"
  by (simp add: trend_sideways_def trend_strong_up_def trend_up_def trend_strong_down_def
      trend_down_def)

lemma calc_short: "length h < 5 \<Longrightarrow> calculate_technical_indicators F h = Inr []"
  by (simp add: calculate_technical_indicators_def)

lemma absent_empty: "absent [] k"
  by (simp add: absent_def dict_get_def)


subsection \<open>The shape of a normal return\<close>

text \<open>
  On a history of at least five bars a normal return has the eleven keys, in the order
  of the dictionary literal, built from the results of the helper functions.
\<close>

lemma calc_fields:
  assumes "calculate_technical_indicators F h = Inr r" and "5 \<le> length h"
  shows "\<exists>r5 r10 r20 vol hi lo.
     calculate_return F (map bar_close h) 5 = Inr r5 \<and>
     calculate_return F (map bar_close h) 10 = Inr r10 \<and>
     calculate_return F (map bar_close h) 20 = Inr r20 \<and>
     calculate_volatility F (map bar_close h) 20 = Inr vol \<and>
     py_max (if 20 \<le> length h then py_last_n 20 (map bar_close h) else map bar_close h)
       = Inr hi \<and>
     py_min (if 20 \<le> length h then py_last_n 20 (map bar_close h) else map bar_close h)
       = Inr lo \<and>
     r = [(''ma5'', round_if F (ma_value F 5 (map bar_close h)) 4),
          (''ma10'', round_if F (ma_value F 10 (map bar_close h)) 4),
          (''ma20'', round_if F (ma_value F 20 (map bar_close h)) 4),
          (''return_5d'', round_if F r5 2), (''return_10d'', round_if F r10 2),
          (''return_20d'', round_if F r20 2), (''volatility'', round_if F vol 4),
          (''high_20d'', PFloat hi), (''low_20d'', PFloat lo),
          (''trend'', PStr (classify_trend (last (map bar_close h))
                (ma_value F 5 (map bar_close h)) (ma_value F 10 (map bar_close h))
                (ma_value F 20 (map bar_close h)))),
          (''current_price'', PFloat (last (map bar_close h)))]"
proof -
  from assms(2) have ne: "h \<noteq> []" by auto
  have cur: "py_from_end (map bar_close h) 1 = Inr (last (map bar_close h))"
    using ne by (simp add: py_from_end_def last_conv_nth Suc_leI)
  show ?thesis
    using assms ne cur
    by (auto simp add: calculate_technical_indicators_def Let_def and_then_Inr sma_eq
        split: if_splits)
qed

subsection \<open>Two concrete histories\<close>

lemmas eval_defs = calculate_technical_indicators_def bar_of_close_def sma_def and_then_def
  py_div_def py_last_n_def py_from_end_def calculate_return_def calculate_volatility_def
  indicator_field_def dict_get_def round_if_def truthy_def py_round_def classify_trend_def
  float_of_count_def exact_ops_def exact2_def is_finite_def the_real_def Let_def

lemma short_history_result:
  "calculate_technical_indicators exact_ops short_history = Inr short_result"
  by (simp add: short_history_def short_result_def eval_defs)

lemma sqrt_25: "sqrt 25 = 5"
  by (rule real_sqrt_unique) simp_all

lemma uptrend_history_result:
  "calculate_technical_indicators exact_ops uptrend_history = Inr uptrend_result"
  by (simp add: uptrend_history_def uptrend_result_def eval_defs sqrt_25)

subsection \<open>Histories of fewer than five bars\<close>

text \<open>
  Claim C9. For every history list with fewer than five entries, the empty list
  included, \<open>calculate_technical_indicators\<close> returns the empty dictionary: no
  indicator field, no trend label, no current price.
\<close>

theorem short_history_empty:
  "length h < 5 \<Longrightarrow> calculate_technical_indicators F h = Inr []"
  by (simp add: calculate_technical_indicators_def)

theorem short_history_empty_witness:
  "length (map bar_of_close [1, 2, 3, 4]) < 5 \<and>
   calculate_technical_indicators exact_ops (map bar_of_close [1, 2, 3, 4]) = Inr []"
  using short_history_empty [of "map bar_of_close [1, 2, 3, 4]" exact_ops] by simp

subsection \<open>A zero close as the base of a return\<close>

text \<open>
  Claim C1 says that the function never raises, and that a return whose base close
  (the close \<open>d + 1\<close> bars back) is zero is reported as absent. The source divides by
  the base close without a test (main.py line 365), so the call raises
  \<open>ZeroDivisionError\<close>: on the six closes 0, 1, 1, 1, 1, 1 the 5-day return divides by
  the first one, whatever the arithmetic of floats.
\<close>

theorem zero_base_return_raises:
  "calculate_technical_indicators F (map bar_of_close [0, 1, 1, 1, 1, 1]) =
     Inl ZeroDivisionError"
  by (simp add: calculate_technical_indicators_def bar_of_close_def sma_def and_then_def
      py_div_def py_last_n_def py_from_end_def calculate_return_def float_of_count_def)

text \<open>The same happens on every history whose close 6, 11 or 21 bars back is zero.\<close>

lemma zero_base_raises_general:
  assumes "d \<in> {5, 10, 20}" and "d + 1 \<le> length h"
    and "bar_close (h ! (length h - (d + 1))) = Finite 0"
  shows "calculate_technical_indicators F h = Inl ZeroDivisionError"
proof -
  let ?cs = "map bar_close h"
  have len: "5 \<le> length h" "h \<noteq> []" using assms(1,2) by auto
  have r: "calculate_return F ?cs d = Inl ZeroDivisionError"
    using assms(2,3) by (simp add: calculate_return_def py_from_end_def py_div_def and_then_def)
  have cur: "py_from_end ?cs 1 = Inr (last ?cs)"
    using len by (simp add: py_from_end_def last_conv_nth Suc_leI)
  from return_raises_or_returns [of F ?cs 5] return_raises_or_returns [of F ?cs 10]
    r assms(1) cur len show ?thesis
    by (auto simp add: calculate_technical_indicators_def Let_def sma_eq and_then_def)
qed

subsection \<open>Fields on a series shorter than the window\<close>

text \<open>
  Claim C2, as stated: on a series shorter than an indicator's window every indicator
  field is absent, the 20-day high and low included. The source computes the high and the
  low over the closes that are there (main.py lines 410 and 411, the \<open>else\<close> branches):
  on the five closes 1 to 5 they are 5 and 1.
\<close>

theorem high_low_on_short_window:
  "indicator_field exact_ops short_history ''high_20d'' = Inr (PFloat (Finite 5)) \<and>
   indicator_field exact_ops short_history ''low_20d'' = Inr (PFloat (Finite 1))"
  by (simp add: indicator_field_def short_history_result short_result_def and_then_def
      dict_get_def)

text \<open>
  Claim C2, amended. On a normal return, whatever the arithmetic of floats, the moving
  averages, the returns and the volatility are absent when the series is shorter than
  their window (5, 10, 20 bars for the averages, 6, 11, 21 for the returns, 20 for the
  volatility). The 20-day high and low are absent below five bars only; from 5 to 19
  bars they are \<open>max\<close> and \<open>min\<close> of all closes of the series, which for finite closes
  are the greatest and the least of them.
\<close>

theorem short_window_fields:
  assumes "calculate_technical_indicators F h = Inr r"
  shows "(length h < 5 \<longrightarrow> absent r ''ma5'') \<and>
         (length h < 10 \<longrightarrow> absent r ''ma10'') \<and>
         (length h < 20 \<longrightarrow> absent r ''ma20'' \<and> absent r ''volatility'') \<and>
         (length h < 6 \<longrightarrow> absent r ''return_5d'') \<and>
         (length h < 11 \<longrightarrow> absent r ''return_10d'') \<and>
         (length h < 21 \<longrightarrow> absent r ''return_20d'') \<and>
         (length h < 5 \<longrightarrow> absent r ''high_20d'' \<and> absent r ''low_20d'') \<and>
         (5 \<le> length h \<and> length h < 20 \<longrightarrow>
            (\<exists>hi lo. py_max (map bar_close h) = Inr hi \<and> py_min (map bar_close h) = Inr lo \<and>
               dict_get r ''high_20d'' = PFloat hi \<and> dict_get r ''low_20d'' = PFloat lo) \<and>
            (\<forall>xs. map bar_close h = map Finite xs \<longrightarrow>
               dict_get r ''high_20d'' = PFloat (Finite (Max (set xs))) \<and>
               dict_get r ''low_20d'' = PFloat (Finite (Min (set xs)))))"
proof (cases "length h < 5")
  case True
  with assms have "r = []" by (simp add: calc_short)
  with True show ?thesis by (simp add: absent_empty)
next
  case False
  then have len: "5 \<le> length h" by simp
  from calc_fields [OF assms len] obtain r5 r10 r20 vol hi lo where
    s: "calculate_return F (map bar_close h) 5 = Inr r5"
       "calculate_return F (map bar_close h) 10 = Inr r10"
       "calculate_return F (map bar_close h) 20 = Inr r20"
       "calculate_volatility F (map bar_close h) 20 = Inr vol"
       "py_max (if 20 \<le> length h then py_last_n 20 (map bar_close h) else map bar_close h)
          = Inr hi"
       "py_min (if 20 \<le> length h then py_last_n 20 (map bar_close h) else map bar_close h)
          = Inr lo"
    and r: "r = [(''ma5'', round_if F (ma_value F 5 (map bar_close h)) 4),
          (''ma10'', round_if F (ma_value F 10 (map bar_close h)) 4),
          (''ma20'', round_if F (ma_value F 20 (map bar_close h)) 4),
          (''return_5d'', round_if F r5 2), (''return_10d'', round_if F r10 2),
          (''return_20d'', round_if F r20 2), (''volatility'', round_if F vol 4),
          (''high_20d'', PFloat hi), (''low_20d'', PFloat lo),
          (''trend'', PStr (classify_trend (last (map bar_close h))
                (ma_value F 5 (map bar_close h)) (ma_value F 10 (map bar_close h))
                (ma_value F 20 (map bar_close h)))),
          (''current_price'', PFloat (last (map bar_close h)))]"
    by blast
  have av: "length h < 20 \<Longrightarrow> vol = None"
    using s(4) by (simp add: volatility_short)
  have b5: "length h < 6 \<Longrightarrow> r5 = None" using s(1) by (simp add: return_short)
  have b10: "length h < 11 \<Longrightarrow> r10 = None" using s(2) by (simp add: return_short)
  have b20: "length h < 21 \<Longrightarrow> r20 = None" using s(3) by (simp add: return_short)
  have n: "round_if F None 4 = PNone" "round_if F None 2 = PNone"
    by (simp_all add: round_if_def truthy_def)
  have hl: "length h < 20 \<Longrightarrow>
      py_max (map bar_close h) = Inr hi \<and> py_min (map bar_close h) = Inr lo"
    using s(5,6) by simp
  have fin: "\<And>xs. length h < 20 \<Longrightarrow> map bar_close h = map Finite xs \<Longrightarrow>
      hi = Finite (Max (set xs)) \<and> lo = Finite (Min (set xs))"
  proof -
    fix xs
    assume l: "length h < 20" and m: "map bar_close h = map Finite xs"
    from m len have "xs \<noteq> []" by auto
    then show "hi = Finite (Max (set xs)) \<and> lo = Finite (Min (set xs))"
      using hl [OF l] by (simp add: m py_max_finite py_min_finite)
  qed
  have fields: "dict_get r ''high_20d'' = PFloat hi" "dict_get r ''low_20d'' = PFloat lo"
    by (simp_all add: r dict_get_def)
  have absents: "(length h < 10 \<longrightarrow> absent r ''ma10'') \<and>
         (length h < 20 \<longrightarrow> absent r ''ma20'' \<and> absent r ''volatility'') \<and>
         (length h < 6 \<longrightarrow> absent r ''return_5d'') \<and>
         (length h < 11 \<longrightarrow> absent r ''return_10d'') \<and>
         (length h < 21 \<longrightarrow> absent r ''return_20d'')"
    using av b5 b10 b20 by (simp add: r absent_def dict_get_def ma_value_def n)
  show ?thesis
    using False absents hl fin unfolding fields by blast
qed

theorem short_window_fields_witness:
  "calculate_technical_indicators exact_ops short_history = Inr short_result \<and>
   length short_history < 10 \<and> absent short_result ''ma10'' \<and>
   absent short_result ''ma20'' \<and> absent short_result ''volatility'' \<and>
   absent short_result ''return_5d'' \<and>
   map bar_close short_history = map Finite [1, 2, 3, 4, 5] \<and>
   dict_get short_result ''high_20d'' = PFloat (Finite (Max (set [1, 2, 3, 4, 5])))"
proof -
  have len: "length short_history = 5"
    by (simp add: short_history_def)
  have m: "map bar_close short_history = map Finite [1, 2, 3, 4, 5]"
    by (simp add: short_history_def bar_of_close_def)
  from short_window_fields [OF short_history_result] len m short_history_result
  show ?thesis by simp
qed

subsection \<open>The trend ladder\<close>






subsection \<open>The moving-average fields\<close>

text \<open>
  Claim C5 says that for a window \<open>w\<close> of 5, 10 or 20 and a series of at least \<open>w\<close>
  bars the field MA\_w is present and is the mean of the last \<open>w\<close> closes, rounded to
  four decimals, and that it is absent on a shorter series. The field is written by
  \<open>round(ma, 4) if ma else None\<close> (main.py lines 395 to 397), and a mean of 0.0 is
  false in Python: on five closes of 0.0 the field \<open>ma5\<close> is \<open>None\<close>, the mean
  being 0.0.
\<close>

theorem zero_mean_average_absent:
  "indicator_field exact_ops (map bar_of_close [0, 0, 0, 0, 0]) ''ma5'' = Inr PNone"
  by (simp add: eval_defs)

text \<open>
  In general, whatever the arithmetic of floats: on a normal return, with at least
  \<open>w\<close> bars and an average (the float sum of the last \<open>w\<close> closes, divided by \<open>w\<close>)
  other than zero, the field MA\_w is \<open>round\<close> of that average to four decimals; with
  fewer than \<open>w\<close> bars, or an average of zero, it is absent.
\<close>

theorem moving_average_field:
  assumes "calculate_technical_indicators F h = Inr r" and "w \<in> {5, 10, 20}"
  shows "(w \<le> length h \<and> moving_average F w (map bar_close h) \<noteq> Finite 0 \<longrightarrow>
            dict_get r (ma_key w) =
              PFloat (fround F (moving_average F w (map bar_close h)) 4)) \<and>
         (length h < w \<or> moving_average F w (map bar_close h) = Finite 0 \<longrightarrow>
            absent r (ma_key w))"
proof (cases "length h < 5")
  case True
  with assms(1) have "r = []" by (simp add: calc_short)
  with True assms(2) show ?thesis by (auto simp add: absent_empty)
next
  case False
  then have len: "5 \<le> length h" by simp
  let ?cs = "map bar_close h"
  from calc_fields [OF assms(1) len] obtain r5 r10 r20 vol hi lo where
    r: "r = [(''ma5'', round_if F (ma_value F 5 ?cs) 4),
          (''ma10'', round_if F (ma_value F 10 ?cs) 4),
          (''ma20'', round_if F (ma_value F 20 ?cs) 4),
          (''return_5d'', round_if F r5 2), (''return_10d'', round_if F r10 2),
          (''return_20d'', round_if F r20 2), (''volatility'', round_if F vol 4),
          (''high_20d'', PFloat hi), (''low_20d'', PFloat lo),
          (''trend'', PStr (classify_trend (last ?cs)
                (ma_value F 5 ?cs) (ma_value F 10 ?cs) (ma_value F 20 ?cs))),
          (''current_price'', PFloat (last ?cs))]"
    by blast
  have "dict_get r (ma_key w) = round_if F (ma_value F w ?cs) 4"
    using assms(2) by (auto simp add: r dict_get_def ma_key_def)
  then show ?thesis
    by (auto simp add: absent_def round_if_def truthy_def ma_value_def)
qed

theorem moving_average_field_witness:
  "calculate_technical_indicators exact_ops uptrend_history = Inr uptrend_result \<and>
   (10 :: nat) \<in> {5, 10, 20} \<and> 10 \<le> length uptrend_history \<and>
   moving_average exact_ops 10 (map bar_close uptrend_history) = Finite 9 \<and>
   dict_get uptrend_result (ma_key 10) =
     PFloat (fround exact_ops (moving_average exact_ops 10 (map bar_close uptrend_history)) 4)"
proof -
  have m: "moving_average exact_ops 10 (map bar_close uptrend_history) = Finite 9"
      "length uptrend_history = 20"
    by (simp_all add: uptrend_history_def moving_average_def bar_of_close_def py_last_n_def
        float_of_count_def exact_ops_def exact2_def is_finite_def the_real_def)
  have "dict_get uptrend_result (ma_key 10) =
     PFloat (fround exact_ops (moving_average exact_ops 10 (map bar_close uptrend_history)) 4)"
    using moving_average_field [OF uptrend_history_result, of 10] by (simp add: m)
  with uptrend_history_result show ?thesis by (simp add: m)
qed

subsection \<open>The volatility of a flat series\<close>

text \<open>
  Claim C4 says that on a flat series of 30 bars the volatility field is present and
  equals 0. The volatility is computed as 0.0, and the field is written by
  \<open>round(v, 4) if v else None\<close> (main.py lines 407 to 409), which turns 0.0 into
  \<open>None\<close>: on 30 closes of 1.0 the field is \<open>None\<close>. (On these closes floating
  point is exact: the sum is 20.0, the mean 1.0, every deviation and the variance 0.0.)
\<close>

theorem flat_series_volatility_none:
  "indicator_field exact_ops (replicate 30 (bar_of_close 1)) ''volatility'' = Inr PNone"
  by (simp add: eval_defs eval_nat_numeral)

text \<open>
  In general, whatever the arithmetic of floats: whenever the volatility is computed as
  zero, the field is \<open>None\<close>.
\<close>

lemma zero_volatility_absent:
  assumes "calculate_technical_indicators F h = Inr r"
    and "calculate_volatility F (map bar_close h) 20 = Inr (Some (Finite 0))"
  shows "dict_get r ''volatility'' = PNone"
proof -
  have "\<not> length h < 20"
    using assms(2) by (auto simp add: volatility_short)
  then have len: "5 \<le> length h" by simp
  from calc_fields [OF assms(1) len] assms(2) show ?thesis
    by (auto simp add: dict_get_def round_if_def truthy_def)
qed

section \<open>Properties of the safe float normalization\<close>

text \<open>
  Claim C8 says that \<open>_safe_float\<close> returns a float and never raises, for every input
  value, and that a value that cannot be converted to a float gives the default. The
  source catches \<open>ValueError\<close> and \<open>TypeError\<close> only (main.py line 110,
  stock/analyzer.py line 65). For an int beyond the range of a float, \<open>float(value)\<close>
  raises \<open>OverflowError\<close>, which passes through: \<open>_safe_float(2 ** 1024)\<close> raises.
\<close>

theorem safe_float_overflow:
  "safe_float B (PInt (2 ^ 1024)) (Finite 0) = Inl OverflowError"
  by (simp add: safe_float_def py_float_def is_nan_float_def float_int_limit_def)

text \<open>
  Otherwise the claim holds: the result is the default for \<open>None\<close>, for NaN and for a
  value whose conversion raises \<open>ValueError\<close> or \<open>TypeError\<close>, and the conversion
  otherwise; \<open>_safe_float\<close> raises exactly what \<open>float(value)\<close> raises other than
  these two, which for the values of the builtin types is the overflow of an int.
\<close>

lemma safe_float_cases:
  "safe_float B v d =
     (case py_float B v of
        Inl e \<Rightarrow> if e = ValueError \<or> e = TypeError then Inr d else Inl e
      | Inr f \<Rightarrow> Inr (if f = NaN then d else f))"
  by (cases v) (auto simp add: safe_float_def py_float_def is_nan_float_def py_isnan_def
      split: option.splits sum.splits)

lemma safe_float_raises_iff:
  "safe_float B v d = Inl e \<longleftrightarrow> py_float B v = Inl e \<and> e \<noteq> ValueError \<and> e \<noteq> TypeError"
  by (cases v) (auto simp add: safe_float_def py_float_def is_nan_float_def py_isnan_def
      split: option.splits sum.splits)

lemma py_float_raises_builtin:
  "py_float B v = Inl e \<Longrightarrow> e \<noteq> ValueError \<Longrightarrow> e \<noteq> TypeError \<Longrightarrow>
     (\<exists>n. v = PInt n \<and> float_int_limit \<le> \<bar>n\<bar> \<and> e = OverflowError) \<or> v = PObj (Inl e)"
  by (cases v) (auto simp add: py_float_def split: option.splits if_splits)

lemma safe_float_not_nan:
  "safe_float B v d = Inr f \<Longrightarrow> d \<noteq> NaN \<Longrightarrow> f \<noteq> NaN"
  by (cases v) (auto simp add: safe_float_def py_float_def is_nan_float_def py_isnan_def
      split: option.splits if_splits sum.splits)

section \<open>Properties of the fund history\<close>

lemma history_record_for:
  assumes "history_record B r = Inr d"
  shows "record_for B r d"
proof -
  from assms obtain v1 v2 v3 v4 v5 v6 v7 where
    v: "safe_float B (cell_or_zero r col_open) (Finite 0) = Inr v1"
       "safe_float B (cell_or_zero r col_close) (Finite 0) = Inr v2"
       "safe_float B (cell_or_zero r col_high) (Finite 0) = Inr v3"
       "safe_float B (cell_or_zero r col_low) (Finite 0) = Inr v4"
       "safe_float B (cell_or_zero r col_volume) (Finite 0) = Inr v5"
       "safe_float B (cell_or_zero r col_amount) (Finite 0) = Inr v6"
       "safe_float B (cell_or_zero r col_change_rate) (Finite 0) = Inr v7"
    and d: "d = [(''date'', PStr (case map_of r col_date of Some v \<Rightarrow> str_of B v | None \<Rightarrow> [])),
          (''open'', PFloat v1), (''close'', PFloat v2), (''high'', PFloat v3),
          (''low'', PFloat v4), (''volume'', PFloat v5), (''amount'', PFloat v6),
          (''change_rate'', PFloat v7)]"
    unfolding history_record_def and_then_Inr by auto
  have n: "v1 \<noteq> NaN" "v2 \<noteq> NaN" "v3 \<noteq> NaN" "v4 \<noteq> NaN" "v5 \<noteq> NaN" "v6 \<noteq> NaN" "v7 \<noteq> NaN"
    using v by (auto dest: safe_float_not_nan)
  show ?thesis
    using v n by (simp add: record_for_def d history_keys_def numeric_columns_def normalized_def)
qed

lemma history_records_for:
  "history_records B rows = Inr ds \<Longrightarrow> list_all2 (record_for B) rows ds"
proof (induction rows arbitrary: ds)
  case Nil
  then show ?case by simp
next
  case (Cons r rows)
  from Cons.prems obtain d ds' where
    "history_record B r = Inr d" "history_records B rows = Inr ds'" "ds = d # ds'"
    by (auto simp add: and_then_Inr)
  with Cons.IH show ?case
    by (simp add: history_record_for)
qed

lemma history_record_returns:
  "(\<exists>d. history_record B r = Inr d) \<longleftrightarrow> list_all (cell_converts B r) numeric_columns"
  unfolding history_record_def and_then_Inr numeric_columns_def cell_converts_def
  by auto

lemma history_records_return:
  "(\<exists>ds. history_records B rows = Inr ds) \<longleftrightarrow> convertible B rows"
proof (induction rows)
  case Nil
  then show ?case by (simp add: convertible_def)
next
  case (Cons r rows)
  have "(\<exists>ds. history_records B (r # rows) = Inr ds) \<longleftrightarrow>
      (\<exists>d. history_record B r = Inr d) \<and> (\<exists>ds. history_records B rows = Inr ds)"
    by (auto simp add: and_then_Inr)
  also have "\<dots> \<longleftrightarrow> convertible B (r # rows)"
    using Cons.IH by (simp add: history_record_returns convertible_def)
  finally show ?case .
qed

lemma length_df_tail: "0 \<le> n \<Longrightarrow> length (df_tail n df) \<le> nat n"
  by (auto simp add: df_tail_def)

lemma history_result:
  "get_lof_history B importable today provider st fund_code days adjust =
     (case fund_ensure_init importable st of
        Inl e \<Rightarrow> (Inl e, st)
      | Inr st1 \<Rightarrow>
          (case history_call B today provider fund_code days adjust of
             Some (Returned (Some df)) \<Rightarrow>
               if df_empty df then (Inr None, st1)
               else (case history_records B (df_tail days df) of
                       Inl e \<Rightarrow> (Inr None, st1)
                     | Inr result \<Rightarrow> (Inr (Some result), st1))
           | _ \<Rightarrow> (Inr None, st1)))"
  by (auto simp add: get_lof_history_def history_call_def Let_def
      split: outcome.splits option.splits sum.splits prod.splits)

text \<open>
  Claim C10, as stated: \<open>get_lof_history\<close> never raises to its caller, and a
  successful call returns at most \<open>days\<close> records. The call of \<open>_ensure_init\<close>
  stands before the \<open>try\<close> (main.py line 225), so the \<open>ImportError\<close> of a missing
  akshare library reaches the caller, which has a handler for it (main.py line 680). With
  a negative \<open>days\<close>, \<open>df.tail(days)\<close> drops rows from the front: for \<open>days = -1\<close>
  and two provider rows there is one record.
\<close>

theorem history_import_error:
  "get_lof_history plain_builtins False some_day two_day_provider new_fund_state None 30 ''qfq'' =
     (Inl ImportError, new_fund_state) \<and>
   get_lof_history plain_builtins True some_day two_day_provider new_fund_state None (- 1) ''qfq'' =
     (Inr (Some last_day_records), new_fund_state\<lparr>f_initialized := True\<rparr>) \<and>
   length last_day_records = 1"
  by (simp add: get_lof_history_def fund_ensure_init_def new_fund_state_def two_day_provider_def
      request_dates_def timedelta_max_days_def date_max_ordinal_def some_day_def
      two_day_frame_def df_empty_def df_tail_def history_record_def and_then_def safe_float_def
      py_float_def is_nan_float_def py_isnan_def cell_or_zero_def plain_builtins_def
      last_day_records_def float_int_limit_def
      col_date_def col_open_def col_close_def col_high_def col_low_def col_volume_def
      col_amount_def col_change_rate_def)

text \<open>
  Claim C10, amended. \<open>get_lof_history\<close> raises the \<open>ImportError\<close> of an akshare
  library that cannot be imported on first use, and nothing else. Once the library is
  there it returns, and what it returns is decided by the provider call
  (\<open>history_call\<close>):
  \<^item> \<open>None\<close> when the dates of the request cannot be computed (an \<open>OverflowError\<close>
    of the date arithmetic for a huge \<open>days\<close>, or a date that cannot be formatted), in
    which case the provider is not called; on a timeout; on a provider error; on a
    provider result that is \<open>None\<close> or empty; and when \<open>_safe_float\<close> raises on a
    numeric cell of the rows of \<open>df.tail(days)\<close>;
  \<^item> a list when the provider gives a non-empty data frame and \<open>_safe_float\<close> returns
    on every numeric cell of the rows of \<open>df.tail(days)\<close>. The list has one record for
    each of these rows, in order; they are at most \<open>days\<close> when \<open>days\<close> is not
    negative; and each record has the eight keys in order, its seven numeric fields
    being the safe float (default 0.0, never NaN) of the cell of their column, or of 0
    where the column is missing.

  A list is returned in no other case.
\<close>

theorem history_outcomes:
  assumes "get_lof_history B importable today provider st fund_code days adjust = (res, st')"
  shows "(\<forall>e. res = Inl e \<longrightarrow> e = ImportError \<and> \<not> f_initialized st \<and> \<not> importable) \<and>
         (\<not> f_initialized st \<and> \<not> importable \<longrightarrow> res = Inl ImportError) \<and>
         (f_initialized st \<or> importable \<longrightarrow>
            (\<exists>v. res = Inr v) \<and>
            (history_call B today provider fund_code days adjust = None \<longrightarrow> res = Inr None) \<and>
            (history_call B today provider fund_code days adjust = Some TimedOut \<longrightarrow>
               res = Inr None) \<and>
            (\<forall>e. history_call B today provider fund_code days adjust = Some (Raised e) \<longrightarrow>
               res = Inr None) \<and>
            (history_call B today provider fund_code days adjust = Some (Returned None) \<longrightarrow>
               res = Inr None) \<and>
            (\<forall>df. history_call B today provider fund_code days adjust = Some (Returned (Some df)) \<and>
                   df_empty df \<longrightarrow> res = Inr None) \<and>
            (\<forall>df. history_call B today provider fund_code days adjust = Some (Returned (Some df)) \<and>
                   \<not> df_empty df \<and> \<not> convertible B (df_tail days df) \<longrightarrow> res = Inr None) \<and>
            (\<forall>df. history_call B today provider fund_code days adjust = Some (Returned (Some df)) \<and>
                   \<not> df_empty df \<and> convertible B (df_tail days df) \<longrightarrow>
                   (\<exists>recs. res = Inr (Some recs) \<and>
                      list_all2 (record_for B) (df_tail days df) recs \<and>
                      (0 \<le> days \<longrightarrow> length recs \<le> nat days)))) \<and>
         (\<forall>recs. res = Inr (Some recs) \<longrightarrow>
            (\<exists>df. history_call B today provider fund_code days adjust = Some (Returned (Some df)) \<and>
                  \<not> df_empty df \<and> convertible B (df_tail days df) \<and>
                  list_all2 (record_for B) (df_tail days df) recs) \<and>
            (0 \<le> days \<longrightarrow> length recs \<le> nat days))"
proof (cases "f_initialized st \<or> importable")
  case False
  with assms show ?thesis
    by (auto simp add: get_lof_history_def fund_ensure_init_def)
next
  case True
  let ?call = "history_call B today provider fund_code days adjust"
  from True have "\<exists>st1. fund_ensure_init importable st = Inr st1"
    by (auto simp add: fund_ensure_init_def)
  then obtain st1 where i: "fund_ensure_init importable st = Inr st1" ..
  have res: "res = (case ?call of
        Some (Returned (Some df)) \<Rightarrow>
          if df_empty df then Inr None
          else (case history_records B (df_tail days df) of
                  Inl e \<Rightarrow> Inr None | Inr result \<Rightarrow> Inr (Some result))
      | _ \<Rightarrow> Inr None)"
    using assms i unfolding history_result
    by (auto split: outcome.splits option.splits sum.splits if_splits)
  show ?thesis
  proof (cases ?call)
    case None
    with True show ?thesis by (simp add: res)
  next
    case (Some out)
    show ?thesis
    proof (cases out)
      case TimedOut
      with Some True show ?thesis by (simp add: res)
    next
      case (Raised e)
      with Some True show ?thesis by (simp add: res)
    next
      case (Returned odf)
      show ?thesis
      proof (cases odf)
        case None
        with Some Returned True show ?thesis by (simp add: res)
      next
        case df: (Some df)
        show ?thesis
        proof (cases "df_empty df")
          case e: True
          with Some Returned df True show ?thesis by (simp add: res)
        next
          case ne: False
          show ?thesis
          proof (cases "history_records B (df_tail days df)")
            case (Inl e)
            then have "\<not> convertible B (df_tail days df)"
              using history_records_return [of B "df_tail days df"] by simp
            with Inl Some Returned df ne True show ?thesis by (simp add: res)
          next
            case (Inr ds)
            then have r: "res = Inr (Some ds)"
              using Some Returned df ne by (simp add: res)
            have c: "convertible B (df_tail days df)"
              using Inr history_records_return [of B "df_tail days df"] by auto
            have l: "list_all2 (record_for B) (df_tail days df) ds"
              using Inr by (rule history_records_for)
            then have "length ds = length (df_tail days df)"
              by (simp add: list_all2_lengthD)
            then have "0 \<le> days \<Longrightarrow> length ds \<le> nat days"
              using length_df_tail [of days df] by simp
            with Some Returned df ne True r l c show ?thesis by simp
          qed
        qed
      qed
    qed
  qed
qed

lemma two_day_run:
  "get_lof_history plain_builtins True some_day two_day_provider new_fund_state None 1 ''qfq'' =
     (Inr (Some last_day_records), new_fund_state\<lparr>f_initialized := True\<rparr>)"
  by (simp add: get_lof_history_def fund_ensure_init_def new_fund_state_def two_day_provider_def
      request_dates_def timedelta_max_days_def date_max_ordinal_def some_day_def
      two_day_frame_def df_empty_def df_tail_def history_record_def and_then_def safe_float_def
      py_float_def is_nan_float_def py_isnan_def cell_or_zero_def plain_builtins_def
      last_day_records_def float_int_limit_def
      col_date_def col_open_def col_close_def col_high_def col_low_def col_volume_def
      col_amount_def col_change_rate_def)

lemma two_day_call:
  "history_call plain_builtins some_day two_day_provider None 1 ''qfq'' =
     Some (Returned (Some two_day_frame))"
  by (simp add: history_call_def request_dates_def timedelta_max_days_def date_max_ordinal_def
      some_day_def plain_builtins_def and_then_def two_day_provider_def)

lemma two_day_convertible: "convertible plain_builtins (df_tail 1 two_day_frame)"
  by (simp add: convertible_def cell_converts_def numeric_columns_def df_tail_def
      two_day_frame_def safe_float_def
      py_float_def is_nan_float_def py_isnan_def cell_or_zero_def plain_builtins_def
      float_int_limit_def
      col_date_def col_open_def col_close_def col_high_def col_low_def col_volume_def
      col_amount_def col_change_rate_def)

theorem history_outcomes_witness:
  "get_lof_history plain_builtins True some_day two_day_provider new_fund_state None 1 ''qfq'' =
     (Inr (Some last_day_records), new_fund_state\<lparr>f_initialized := True\<rparr>) \<and>
   history_call plain_builtins some_day two_day_provider None 1 ''qfq'' =
     Some (Returned (Some two_day_frame)) \<and>
   \<not> df_empty two_day_frame \<and> convertible plain_builtins (df_tail 1 two_day_frame) \<and>
   list_all2 (record_for plain_builtins) (df_tail 1 two_day_frame) last_day_records \<and>
   length last_day_records \<le> nat 1"
proof -
  have e: "\<not> df_empty two_day_frame"
    by (simp add: df_empty_def two_day_frame_def)
  from history_outcomes [OF two_day_run] two_day_call two_day_convertible e two_day_run
  show ?thesis
    by simp
qed

text \<open>
  The date arithmetic of the request stands inside the \<open>try\<close>: for a \<open>days\<close> beyond
  what a \<open>timedelta\<close> holds, or a start date off the calendar, the provider is not
  called and the result is \<open>None\<close>.
\<close>

lemma history_huge_days:
  "timedelta_max_days < \<bar>days * 2\<bar> \<or> today - days * 2 < 1 \<or> date_max_ordinal < today - days * 2 \<Longrightarrow>
   history_call B today provider fund_code days adjust = None"
  by (auto simp add: history_call_def request_dates_def Let_def)

lemma history_huge_days_run:
  "get_lof_history plain_builtins True some_day two_day_provider new_fund_state None (10 ^ 9) ''qfq'' =
     (Inr None, new_fund_state\<lparr>f_initialized := True\<rparr>)"
  by (simp add: get_lof_history_def fund_ensure_init_def new_fund_state_def request_dates_def
      timedelta_max_days_def plain_builtins_def)

section \<open>Properties of the snapshot requests\<close>

subsection \<open>The retry loops in closed form\<close>

lemma retry_loop_three:
  "retry_loop src f [0..<MAX_RETRIES] le tr =
     (case f 0 of Returned df \<Rightarrow> (Some df, le, tr @ [Fetch src])
      | _ \<Rightarrow> (case f 1 of Returned df \<Rightarrow> (Some df, Some (error_of src (f 0)),
                            tr @ [Fetch src, Sleep 2, Fetch src])
        | _ \<Rightarrow> (case f 2 of Returned df \<Rightarrow> (Some df, Some (error_of src (f 1)),
                            tr @ [Fetch src, Sleep 2, Fetch src, Sleep 2, Fetch src])
          | _ \<Rightarrow> (None, Some (error_of src (f 2)),
                            tr @ [Fetch src, Sleep 2, Fetch src, Sleep 2, Fetch src]))))"
proof -
  have r: "[0..<MAX_RETRIES] = [0, 1, 2]"
    by (simp add: MAX_RETRIES_def upt_rec)
  show ?thesis
    unfolding r
    by (simp add: after_failure_def MAX_RETRIES_def RETRY_DELAY_def error_of_def
        split: outcome.splits)
qed

lemma returned_result: "\<not> failed out \<Longrightarrow> out = Returned (result_of out)"
  by (cases out) (simp_all add: failed_def result_of_def)

lemma retry_loop_if:
  "retry_loop src f [0..<MAX_RETRIES] le tr =
     (if \<not> failed (f 0) then (Some (result_of (f 0)), le, tr @ [Fetch src])
      else if \<not> failed (f 1) then (Some (result_of (f 1)), Some (error_of src (f 0)),
                 tr @ [Fetch src, Sleep 2, Fetch src])
      else if \<not> failed (f 2) then (Some (result_of (f 2)), Some (error_of src (f 1)),
                 tr @ [Fetch src, Sleep 2, Fetch src, Sleep 2, Fetch src])
      else (None, Some (error_of src (f 2)),
                 tr @ [Fetch src, Sleep 2, Fetch src, Sleep 2, Fetch src]))"
  unfolding retry_loop_three
  by (cases "f 0"; cases "f 1"; cases "f 2"; simp add: failed_def result_of_def)

lemma with_retry_if:
  "get_stock_data_with_retry em sn st =
     (if \<not> failed (em 0) then
        (Inr (result_of (em 0)), st\<lparr>current_source := Eastmoney\<rparr>, take 1 full_schedule)
      else if \<not> failed (em 1) then
        (Inr (result_of (em 1)), st\<lparr>current_source := Eastmoney\<rparr>, take 3 full_schedule)
      else if \<not> failed (em 2) then
        (Inr (result_of (em 2)), st\<lparr>current_source := Eastmoney\<rparr>, take 5 full_schedule)
      else if \<not> failed (sn 0) then
        (Inr (result_of (sn 0)), st\<lparr>current_source := Sina\<rparr>, take 6 full_schedule)
      else if \<not> failed (sn 1) then
        (Inr (result_of (sn 1)), st\<lparr>current_source := Sina\<rparr>, take 8 full_schedule)
      else if \<not> failed (sn 2) then
        (Inr (result_of (sn 2)), st\<lparr>current_source := Sina\<rparr>, full_schedule)
      else (Inl (error_of Sina (sn 2)), st, full_schedule))"
  by (simp add: get_stock_data_with_retry_def retry_loop_if full_schedule_def)

lemma stock_miss_result:
  assumes "s_initialized st \<or> importable"
    and "\<not> cache_fresh (stock_cache st) (stock_cache_time st) now STOCK_CACHE_TTL"
  shows "fst (get_stock_data importable em sn now st) =
     (if \<not> failed (em 0) then Inr (result_of (em 0))
      else if \<not> failed (em 1) then Inr (result_of (em 1))
      else if \<not> failed (em 2) then Inr (result_of (em 2))
      else if \<not> failed (sn 0) then Inr (result_of (sn 0))
      else if \<not> failed (sn 1) then Inr (result_of (sn 1))
      else if \<not> failed (sn 2) then Inr (result_of (sn 2))
      else (case stock_cache st of Some old \<Rightarrow> Inr old | None \<Rightarrow> Inl (error_of Sina (sn 2))))"
  using assms
  by (auto simp add: get_stock_data_def stock_ensure_init_def with_retry_if split: option.splits)

lemma stock_miss_trace:
  assumes "s_initialized st \<or> importable"
    and "\<not> cache_fresh (stock_cache st) (stock_cache_time st) now STOCK_CACHE_TTL"
  shows "snd (snd (get_stock_data importable em sn now st)) =
     (if \<not> failed (em 0) then take 1 full_schedule
      else if \<not> failed (em 1) then take 3 full_schedule
      else if \<not> failed (em 2) then take 5 full_schedule
      else if \<not> failed (sn 0) then take 6 full_schedule
      else if \<not> failed (sn 1) then take 8 full_schedule
      else full_schedule)"
  using assms
  by (auto simp add: get_stock_data_def stock_ensure_init_def with_retry_if split: option.splits)

lemma lof_miss_trace:
  assumes "get_lof_data fetch now st = (res, st', trace)"
    and "\<not> cache_fresh (lof_cache st) (lof_cache_time st) now CACHE_TTL"
  shows "trace = [FetchLof]"
  using assms by (auto simp add: get_lof_data_def split: outcome.splits option.splits)

subsection \<open>Retry bound, delay and provider order\<close>

text \<open>
  Claim C7, as stated: on a cache miss or expiry every failed attempt is retried, up to
  three attempts on each of two providers, and an error comes up only after all of them
  have failed. The claim names \<open>_get_lof_data\<close> as well, and the LOF path has neither a
  retry nor a second provider: with nothing cached, one timed-out attempt ends the
  request with \<open>TimeoutError\<close>.
\<close>

theorem lof_single_attempt:
  "get_lof_data TimedOut 0 fresh_state = (Inl (TimeoutError LofTimeout), fresh_state, [FetchLof])"
  by (simp add: get_lof_data_def fresh_state_def cache_fresh_def)

text \<open>
  Claim C7, amended. On a cache miss or expiry of the A-share snapshot
  (\<open>_get_stock_data\<close>, the library being importable) the trace of the request is a
  prefix of the full schedule: Eastmoney three times, then Sina three times, with a sleep
  of two seconds between two attempts on the same provider. The request stops at the
  first attempt that returns and hands its data frame back: with \<open>k\<close> failures in a
  row from the start it makes \<open>k + 1\<close> attempts, six at most, and its last event is an
  attempt. It raises only when all six attempts have failed, after the full schedule.
  On a cache miss or expiry of the LOF snapshot (\<open>_get_lof_data\<close>) there is one attempt,
  without retry and without a second provider.
\<close>

theorem retry_policy:
  assumes run: "get_stock_data importable em sn now st = (res, st', trace)"
    and init: "s_initialized st \<or> importable"
    and miss: "\<not> cache_fresh (stock_cache st) (stock_cache_time st) now STOCK_CACHE_TTL"
    and lof: "get_lof_data fetch now' lst = (lres, lst', ltrace)"
    and lmiss: "\<not> cache_fresh (lof_cache lst) (lof_cache_time lst) now' CACHE_TTL"
  shows "prefix trace full_schedule \<and> trace \<noteq> [] \<and> is_fetch (last trace) \<and>
         length (filter is_fetch trace) = min (Suc (leading_failures (six_attempts em sn))) 6 \<and>
         (\<forall>e. res = Inl e \<longrightarrow> leading_failures (six_attempts em sn) = 6 \<and> trace = full_schedule) \<and>
         (leading_failures (six_attempts em sn) < 6 \<longrightarrow>
            (\<exists>df. res = Inr df \<and>
               six_attempts em sn ! leading_failures (six_attempts em sn) = Returned df)) \<and>
         ltrace = [FetchLof]"
proof -
  let ?k = "leading_failures (six_attempts em sn)"
  have res: "res = fst (get_stock_data importable em sn now st)"
    and trace: "trace = snd (snd (get_stock_data importable em sn now st))"
    using run by simp_all
  note r = res [unfolded stock_miss_result [OF init miss]]
  note t = trace [unfolded stock_miss_trace [OF init miss]]
  have l: "ltrace = [FetchLof]"
    using lof lmiss by (rule lof_miss_trace)
  consider (a) "\<not> failed (em 0)"
    | (b) "failed (em 0)" "\<not> failed (em 1)"
    | (c) "failed (em 0)" "failed (em 1)" "\<not> failed (em 2)"
    | (d) "failed (em 0)" "failed (em 1)" "failed (em 2)" "\<not> failed (sn 0)"
    | (e) "failed (em 0)" "failed (em 1)" "failed (em 2)" "failed (sn 0)" "\<not> failed (sn 1)"
    | (f) "failed (em 0)" "failed (em 1)" "failed (em 2)" "failed (sn 0)" "failed (sn 1)"
          "\<not> failed (sn 2)"
    | (g) "failed (em 0)" "failed (em 1)" "failed (em 2)" "failed (sn 0)" "failed (sn 1)"
          "failed (sn 2)"
    by blast
  then show ?thesis
  proof cases
    case a
    then have k: "?k = 0" by (simp add: leading_failures_def six_attempts_def)
    from a have "res = Inr (result_of (em 0))" "trace = take 1 full_schedule"
      using r t by simp_all
    with a k l show ?thesis
      by (simp add: full_schedule_def is_fetch_def six_attempts_def returned_result [symmetric])
  next
    case b
    then have k: "?k = 1" by (simp add: leading_failures_def six_attempts_def)
    from b have "res = Inr (result_of (em 1))" "trace = take 3 full_schedule"
      using r t by simp_all
    with b k l show ?thesis
      by (simp add: full_schedule_def is_fetch_def six_attempts_def returned_result [symmetric])
  next
    case c
    then have k: "?k = 2" by (simp add: leading_failures_def six_attempts_def)
    from c have "res = Inr (result_of (em 2))" "trace = take 5 full_schedule"
      using r t by simp_all
    with c k l show ?thesis
      by (simp add: full_schedule_def is_fetch_def six_attempts_def returned_result [symmetric])
  next
    case d
    then have k: "?k = 3" by (simp add: leading_failures_def six_attempts_def)
    from d have "res = Inr (result_of (sn 0))" "trace = take 6 full_schedule"
      using r t by simp_all
    with d k l show ?thesis
      by (simp add: full_schedule_def is_fetch_def six_attempts_def returned_result [symmetric])
  next
    case e
    then have k: "?k = 4" by (simp add: leading_failures_def six_attempts_def)
    from e have "res = Inr (result_of (sn 1))" "trace = take 8 full_schedule"
      using r t by simp_all
    with e k l show ?thesis
      by (simp add: full_schedule_def is_fetch_def six_attempts_def returned_result [symmetric])
  next
    case f
    then have k: "?k = 5" by (simp add: leading_failures_def six_attempts_def)
    from f have "res = Inr (result_of (sn 2))" "trace = full_schedule"
      using r t by simp_all
    with f k l show ?thesis
      by (simp add: full_schedule_def is_fetch_def six_attempts_def returned_result [symmetric])
  next
    case g
    then have k: "?k = 6" by (simp add: leading_failures_def six_attempts_def)
    from g have "trace = full_schedule"
      using t by simp
    with g k l show ?thesis
      by (simp add: full_schedule_def is_fetch_def)
  qed
qed

theorem retry_policy_witness:
  "get_stock_data True eastmoney_down sina_second_try 0 cold_stock_state =
     (Inr one_row_frame,
      \<lparr>s_initialized = True, stock_cache = Some one_row_frame, stock_cache_time = Some 0,
       current_source = Sina\<rparr>,
      take 8 full_schedule) \<and>
   get_lof_data TimedOut 0 fresh_state = (Inl (TimeoutError LofTimeout), fresh_state, [FetchLof]) \<and>
   prefix (take 8 full_schedule) full_schedule \<and>
   length (filter is_fetch (take 8 full_schedule)) =
     min (Suc (leading_failures (six_attempts eastmoney_down sina_second_try))) 6 \<and>
   six_attempts eastmoney_down sina_second_try !
     leading_failures (six_attempts eastmoney_down sina_second_try) = Returned one_row_frame"
proof -
  have run: "get_stock_data True eastmoney_down sina_second_try 0 cold_stock_state =
     (Inr one_row_frame,
      \<lparr>s_initialized = True, stock_cache = Some one_row_frame, stock_cache_time = Some 0,
       current_source = Sina\<rparr>,
      take 8 full_schedule)"
    by (simp add: get_stock_data_def stock_ensure_init_def cold_stock_state_def cache_fresh_def
        with_retry_if eastmoney_down_def sina_second_try_def failed_def result_of_def)
  have lof: "get_lof_data TimedOut 0 fresh_state =
      (Inl (TimeoutError LofTimeout), fresh_state, [FetchLof])"
    by (simp add: get_lof_data_def fresh_state_def cache_fresh_def)
  have init: "s_initialized cold_stock_state \<or> True"
    by simp
  have miss: "\<not> cache_fresh (stock_cache cold_stock_state) (stock_cache_time cold_stock_state)
      0 STOCK_CACHE_TTL"
    by (simp add: cache_fresh_def cold_stock_state_def)
  have lmiss: "\<not> cache_fresh (lof_cache fresh_state) (lof_cache_time fresh_state) 0 CACHE_TTL"
    by (simp add: cache_fresh_def fresh_state_def)
  have k: "leading_failures (six_attempts eastmoney_down sina_second_try) = 4"
    by (simp add: leading_failures_def six_attempts_def eastmoney_down_def sina_second_try_def
        failed_def)
  from retry_policy [OF run init miss lof lmiss] run lof show ?thesis
    by (simp add: k)
qed

subsection \<open>The stale snapshot after a failed refresh\<close>

text \<open>
  Claim C6 says that when every fetch attempt of a snapshot request fails, a snapshot
  cached before, even an expired one, is returned, and that the failure reaches the
  caller only when nothing is cached. \<open>_get_stock_data\<close> does so for every failure
  (\<open>stock_all_failed\<close> below). \<open>_get_lof_data\<close> has the one handler
  \<open>except asyncio.TimeoutError\<close> (main.py line 138): when the provider raises an
  exception that this handler does not take, the exception reaches the caller although a
  stale snapshot is there. Here the snapshot was cached at time 0, the request comes at
  1000 seconds, and the provider raises a \<open>ConnectionError\<close>.
\<close>

theorem lof_error_despite_stale_snapshot:
  "lof_cache stale_state = Some [[(''code'', PStr ''161226'')]] \<and>
   get_lof_data (Raised ''ConnectionError'') 1000 stale_state =
     (Inl (ProviderError ''ConnectionError''), stale_state, [FetchLof])"
  by (simp add: get_lof_data_def stale_state_def cache_fresh_def CACHE_TTL_def)

text \<open>What the two paths do when every attempt has failed.\<close>

lemma stock_all_failed:
  assumes "s_initialized st \<or> importable"
    and "\<not> cache_fresh (stock_cache st) (stock_cache_time st) now STOCK_CACHE_TTL"
    and "list_all failed (six_attempts em sn)"
  shows "fst (get_stock_data importable em sn now st) =
     (case stock_cache st of Some old \<Rightarrow> Inr old | None \<Rightarrow> Inl (error_of Sina (sn 2)))"
  using assms(3) by (simp add: stock_miss_result [OF assms(1,2)] six_attempts_def)

lemma lof_timeout_falls_back:
  assumes "\<not> cache_fresh (lof_cache st) (lof_cache_time st) now CACHE_TTL"
  shows "fst (get_lof_data TimedOut now st) =
     (case lof_cache st of Some old \<Rightarrow> Inr old | None \<Rightarrow> Inl (TimeoutError LofTimeout))"
  using assms by (simp add: get_lof_data_def split: option.splits)

lemma lof_raise_propagates:
  assumes "\<not> cache_fresh (lof_cache st) (lof_cache_time st) now CACHE_TTL"
  shows "fst (get_lof_data (Raised e) now st) = Inl (ProviderError e)"
  using assms by (simp add: get_lof_data_def)

end
